theory Spec2Isabelle
  imports Complex_Main
begin

section \<open>JavaScript numbers and lookups\<close>

text \<open>
  The calculators are React components whose state variables are JavaScript numbers,
  strings and booleans. A number is modelled as a real: the formulas are read as exact
  arithmetic, and the rounding of IEEE doubles is outside the model. The TypeScript
  string-literal unions (\<^verbatim>\<open>'F32' | 'F16' | ...\<close>) are erased at run time, so a
  quantization, a GPU model and a memory mode are strings, and the \<^verbatim>\<open>default:\<close>
  branch of a \<^verbatim>\<open>switch\<close> is a branch of the model. The state variables a
  function closes over are its arguments here, in the order the component declares them.
\<close>

text \<open>
  \<^verbatim>\<open>table[key] || d\<close>, read on the entries the object literal lists: a key it does
  not list gives \<^verbatim>\<open>undefined\<close>, and \<^verbatim>\<open>||\<close> replaces every falsy value (also
  the number 0) by \<open>d\<close>. This is the value of the expression for every key but the
  property names that an object literal inherits, which \<open>js_get\<close> below tells apart.
  The selectors and presets of the calculators produce no such name.
\<close>

definition js_or :: "real option \<Rightarrow> real \<Rightarrow> real" where
  "js_or v d = (case v of None \<Rightarrow> d | Some x \<Rightarrow> if x = 0 then d else x)"

text \<open>
  The property names every object literal inherits from \<^verbatim>\<open>Object.prototype\<close>. A
  lookup \<^verbatim>\<open>table[key]\<close> has three outcomes: the number the literal lists for the key,
  \<^verbatim>\<open>undefined\<close> for a key that is neither listed nor inherited, and, for an
  inherited name the literal does not list, the inherited function (the prototype
  object for \<^verbatim>\<open>__proto__\<close>).
\<close>

definition objectPrototypeProperties :: "string list" where
  "objectPrototypeProperties =
     [''constructor'', ''hasOwnProperty'', ''isPrototypeOf'', ''propertyIsEnumerable'',
      ''toLocaleString'', ''toString'', ''valueOf'', ''__proto__'', ''__defineGetter__'',
      ''__defineSetter__'', ''__lookupGetter__'', ''__lookupSetter__'']"

datatype property = Own real | Inherited | Missing

definition js_get :: "(string \<times> real) list \<Rightarrow> string \<Rightarrow> property" where
  "js_get table key =
     (case map_of table key of
        Some x \<Rightarrow> Own x
      | None \<Rightarrow> if key \<in> set objectPrototypeProperties then Inherited else Missing)"

text \<open>
  \<^verbatim>\<open>table[key] || d\<close> for every key, as the number that enters the arithmetic. An
  inherited function or object is truthy, so \<^verbatim>\<open>||\<close> keeps it, and every product
  or quotient it enters is \<^verbatim>\<open>NaN\<close>: that is the value \<open>None\<close>.
\<close>

definition js_get_or :: "(string \<times> real) list \<Rightarrow> string \<Rightarrow> real \<Rightarrow> real option" where
  "js_get_or table key d =
     (case js_get table key of
        Own x \<Rightarrow> Some (if x = 0 then d else x)
      | Missing \<Rightarrow> Some d
      | Inherited \<Rightarrow> None)"

text \<open>The exception a call of a value that is no function raises.\<close>

datatype jsError = TypeError

text \<open>
  \<^verbatim>\<open>x / y\<close> with a divisor that is a variable: JavaScript does not throw on a zero
  divisor, it yields \<^verbatim>\<open>Infinity\<close>, \<^verbatim>\<open>-Infinity\<close> or \<^verbatim>\<open>NaN\<close>. \<open>None\<close>
  stands for such a non-finite number; it stays non-finite through \<^verbatim>\<open>Math.ceil\<close>
  and through every product it enters.
\<close>

definition js_div :: "real \<Rightarrow> real \<Rightarrow> real option" where
  "js_div x y = (if y = 0 then None else Some (x / y))"

text \<open>
  \<^verbatim>\<open>x.toFixed(1)\<close> renders the decimal with one fraction digit nearest to \<open>x\<close>
  (the sign apart, a tie going to the larger magnitude); the model keeps the number the
  rendered string denotes.
\<close>

definition toFixed1 :: "real \<Rightarrow> real" where
  "toFixed1 x =
     (if x < 0 then - (of_int \<lfloor>- x * 10 + 1 / 2\<rfloor> / 10)
      else of_int \<lfloor>x * 10 + 1 / 2\<rfloor> / 10)"

section \<open>calculator.tsx: \<^verbatim>\<open>calculateRequirements\<close>\<close>

text \<open>Source: \<^verbatim>\<open>src/llm_inference/components/calculator.tsx\<close>, lines 55 to 151. The
  four tables are the object literals of the function.\<close>

definition bytesPerParameterTable :: "(string \<times> real) list" where
  "bytesPerParameterTable =
     [(''fp32'', 4), (''fp16'', 2), (''bf16'', 2), (''int8'', 1), (''int4'', 0.5),
      (''gptq'', 0.5)]"

definition bytesPerParameter :: "string \<Rightarrow> real" where
  "bytesPerParameter quantizationMethod =
     js_or (map_of bytesPerParameterTable quantizationMethod) 2"

definition gpuVramSizes :: "(string \<times> real) list" where
  "gpuVramSizes =
     [(''rtx3090'', 24), (''rtx4090'', 24), (''a100_40gb'', 40), (''a100_80gb'', 80),
      (''h100'', 80), (''rtx3080'', 10), (''rtx4080'', 16), (''rtx3070'', 8),
      (''rtx4070'', 12), (''a10'', 24), (''l4'', 24), (''a30'', 24), (''a40'', 48)]"

definition selectedGpuVram :: "string \<Rightarrow> real" where
  "selectedGpuVram gpuModel = js_or (map_of gpuVramSizes gpuModel) 24"

definition gpuSpeedFactors :: "(string \<times> real) list" where
  "gpuSpeedFactors =
     [(''rtx3090'', 1.0), (''rtx4090'', 1.8), (''a100_40gb'', 1.5), (''a100_80gb'', 1.6),
      (''h100'', 2.5), (''rtx3080'', 0.7), (''rtx4080'', 1.2), (''rtx3070'', 0.5),
      (''rtx4070'', 0.8), (''a10'', 0.9), (''l4'', 0.9), (''a30'', 1.1), (''a40'', 1.3)]"

definition speedFactor :: "string \<Rightarrow> real" where
  "speedFactor gpuModel = js_or (map_of gpuSpeedFactors gpuModel) 1.0"

definition quantizationSpeedFactors :: "(string \<times> real) list" where
  "quantizationSpeedFactors =
     [(''fp32'', 0.5), (''fp16'', 1.0), (''bf16'', 1.0), (''int8'', 1.5), (''int4'', 2.0),
      (''gptq'', 1.8)]"

definition quantizationSpeedFactor :: "string \<Rightarrow> real" where
  "quantizationSpeedFactor quantizationMethod =
     js_or (map_of quantizationSpeedFactors quantizationMethod) 1.0"

text \<open>The five results the function stores with \<^verbatim>\<open>setVramRequired\<close>, ...,
  \<^verbatim>\<open>setInferenceSpeed\<close>.\<close>

record requirements =
  vramRequired :: real
  systemRAMRequired :: real
  diskSpace :: real
  gpusNeeded :: "int option"
  inferenceSpeed :: "real option"

definition calculateRequirements ::
  "real \<Rightarrow> real \<Rightarrow> string \<Rightarrow> bool \<Rightarrow> real \<Rightarrow> string \<Rightarrow> real \<Rightarrow> bool \<Rightarrow> requirements" where
  "calculateRequirements modelSize contextLength quantizationMethod enableKVCache batchSize
       gpuModel systemRAM unifiedMemory =
     (let modelSizeBytes = modelSize * 1000000000 * bytesPerParameter quantizationMethod;
          kvCacheSize =
            (if enableKVCache
             then (let headDim = 128;
                       numHeads = \<lceil>(modelSize * 1000000000) / (4 * 768 * 768)\<rceil>
                   in 2 * of_int numHeads * headDim * contextLength * batchSize * 2)
             else 0);
          totalVramBytes = modelSizeBytes + kvCacheSize;
          totalVramGB = totalVramBytes / (1024 * 1024 * 1024);
          ramRequired = totalVramGB * 1.5;
          diskSpaceGB =
            ((modelSize * 1000000000 * bytesPerParameter quantizationMethod)
               / (1024 * 1024 * 1024)) * 1.1;
          gpusNeededCalc =
            (if unifiedMemory
             then map_option ceiling (js_div totalVramGB (systemRAM * 0.75))
             else map_option ceiling (js_div totalVramGB (selectedGpuVram gpuModel)));
          baseSpeed = 30;
          modelSizeFactor = js_div 7 modelSize;
          inferenceSpeedCalc =
            (case (modelSizeFactor, gpusNeededCalc) of
               (Some f, Some g) \<Rightarrow>
                 Some (baseSpeed * speedFactor gpuModel
                         * quantizationSpeedFactor quantizationMethod * f * of_int g)
             | _ \<Rightarrow> None)
      in \<lparr>vramRequired = totalVramGB, systemRAMRequired = ramRequired,
          diskSpace = diskSpaceGB, gpusNeeded = gpusNeededCalc,
          inferenceSpeed = inferenceSpeedCalc\<rparr>)"

section \<open>quantization-comparison.tsx: \<^verbatim>\<open>calculateVram\<close>\<close>

text \<open>Source: \<^verbatim>\<open>src/llm_inference/components/quantization-comparison.tsx\<close>, lines
  20 to 37. The comparison chart repeats the VRAM formula of
  \<^verbatim>\<open>calculateRequirements\<close> with the bytes per parameter as its argument.\<close>

definition calculateVram :: "real \<Rightarrow> real \<Rightarrow> bool \<Rightarrow> real \<Rightarrow> real \<Rightarrow> real" where
  "calculateVram modelSize contextLength enableKVCache batchSize bytesPerParam =
     (let modelSizeBytes = modelSize * 1000000000 * bytesPerParam;
          kvCacheSize =
            (if enableKVCache
             then (let headDim = 128;
                       numHeads = \<lceil>(modelSize * 1000000000) / (4 * 768 * 768)\<rceil>
                   in 2 * of_int numHeads * headDim * contextLength * batchSize * 2)
             else 0);
          totalVramBytes = modelSizeBytes + kvCacheSize
      in totalVramBytes / (1024 * 1024 * 1024))"

section \<open>results-display.tsx: \<^verbatim>\<open>ResultsDisplay\<close>\<close>

text \<open>Source: \<^verbatim>\<open>src/unnamed/part_000\<close>, lines 47 to 54. The component receives
  the stored results and the hardware inputs as props; its \<^verbatim>\<open>gpuVramSizes\<close> table
  is the one of \<^verbatim>\<open>calculateRequirements\<close>, entry by entry. The flag decides between
  the banners "Configuration is viable" and "Insufficient memory".\<close>

definition isVramSufficient :: "real \<Rightarrow> string \<Rightarrow> bool \<Rightarrow> real \<Rightarrow> bool" where
  "isVramSufficient vram gpuModel unifiedMemory systemRAM =
     (if unifiedMemory then vram \<le> systemRAM * 0.75
      else vram \<le> selectedGpuVram gpuModel)"

section \<open>inference-speed-estimator.tsx: \<^verbatim>\<open>InferenceSpeedEstimator\<close>\<close>

text \<open>Source: \<^verbatim>\<open>src/components/inference-speed-estimator.tsx\<close>, lines 68 to 86.\<close>

definition batchSizes :: "real list" where
  "batchSizes = [1, 2, 4, 8, 16, 32]"

text \<open>\<^verbatim>\<open>Math.log2(batchSize) / Math.log2(4) + 0.5\<close>. The component evaluates it at
  the six sizes of \<open>batchSizes\<close> only, all positive, where \<^verbatim>\<open>Math.log2\<close> is the
  binary logarithm.\<close>

definition batchSizeFactor :: "real \<Rightarrow> real" where
  "batchSizeFactor batchSize = log 2 batchSize / log 2 4 + 0.5"

text \<open>One point of the chart: the speed at a batch size, rendered with one fraction
  digit. The tables of speed factors are those of \<^verbatim>\<open>calculateRequirements\<close>, entry
  by entry.\<close>

definition chartSpeed :: "real \<Rightarrow> string \<Rightarrow> string \<Rightarrow> int option \<Rightarrow> real \<Rightarrow> real option" where
  "chartSpeed modelSize quantizationMethod gpuModel gpusNeededProp batchSize =
     (let baseSpeed = 30;
          modelSizeFactor = js_div 7 modelSize
      in case (modelSizeFactor, gpusNeededProp) of
           (Some f, Some g) \<Rightarrow>
             Some (toFixed1 (baseSpeed * speedFactor gpuModel
                     * quantizationSpeedFactor quantizationMethod * f * of_int g
                     * batchSizeFactor batchSize))
         | _ \<Rightarrow> None)"

definition chartData ::
  "real \<Rightarrow> string \<Rightarrow> string \<Rightarrow> int option \<Rightarrow> (real \<times> real option) list" where
  "chartData modelSize quantizationMethod gpuModel gpusNeededProp =
     map (\<lambda>batchSize.
            (batchSize, chartSpeed modelSize quantizationMethod gpuModel gpusNeededProp batchSize))
         batchSizes"

text \<open>
  The list of performance factors (lines 125 to 130) renders
  \<^verbatim>\<open>gpuSpeedFactors[gpuModel]?.toFixed(1) || "1.0"\<close> and then the same expression
  for the quantization. A listed factor is rendered with one fraction digit, a key that
  is neither listed nor inherited gives \<^verbatim>\<open>undefined\<close>, which \<^verbatim>\<open>?.\<close> passes on
  and \<^verbatim>\<open>||\<close> replaces by "1.0". An inherited function has no \<^verbatim>\<open>toFixed\<close>, and
  the call raises a \<^verbatim>\<open>TypeError\<close>. The model keeps the numbers the two texts
  denote.
\<close>

definition factorText :: "(string \<times> real) list \<Rightarrow> string \<Rightarrow> jsError + real" where
  "factorText table key =
     (case js_get table key of
        Own x \<Rightarrow> Inr (toFixed1 x)
      | Missing \<Rightarrow> Inr 1.0
      | Inherited \<Rightarrow> Inl TypeError)"

definition performanceFactors :: "string \<Rightarrow> string \<Rightarrow> jsError + real \<times> real" where
  "performanceFactors gpuModel quantizationMethod =
     (case factorText gpuSpeedFactors gpuModel of
        Inl e \<Rightarrow> Inl e
      | Inr gpuText \<Rightarrow>
          (case factorText quantizationSpeedFactors quantizationMethod of
             Inl e \<Rightarrow> Inl e
           | Inr quantText \<Rightarrow> Inr (gpuText, quantText)))"

section \<open>App.tsx, first component: model and KV-cache quantization chosen separately\<close>

text \<open>Source: \<^verbatim>\<open>src/src/App.tsx\<close>, lines 56 to 185.\<close>

definition getModelQuantFactor :: "string \<Rightarrow> real" where
  "getModelQuantFactor q =
     (if q = ''F32'' then 4.0
      else if q = ''F16'' then 2.0
      else if q = ''Q8'' then 1.0
      else if q = ''Q6'' then 0.75
      else if q = ''Q5'' then 0.625
      else if q = ''Q4'' then 0.5
      else if q = ''Q3'' then 0.375
      else if q = ''Q2'' then 0.25
      else if q = ''GPTQ'' then 0.4
      else if q = ''AWQ'' then 0.35
      else 1.0)"

definition getKvCacheQuantFactor :: "string \<Rightarrow> real" where
  "getKvCacheQuantFactor k =
     (if k = ''F32'' then 4.0
      else if k = ''F16'' then 2.0
      else if k = ''Q8'' then 1.0
      else if k = ''Q5'' then 0.625
      else if k = ''Q4'' then 0.5
      else 1.0)"

definition calculateRequiredVram :: "real \<Rightarrow> string \<Rightarrow> bool \<Rightarrow> string \<Rightarrow> real \<Rightarrow> real" where
  "calculateRequiredVram params modelQuant useKvCache kvCacheQuant contextLength =
     (let modelFactor = getModelQuantFactor modelQuant;
          baseModelMem = params * modelFactor;
          contextScale = (if contextLength / 2048 < 1 then 1 else contextLength / 2048);
          modelMem = baseModelMem * contextScale;
          kvCacheMem =
            (if useKvCache
             then (let kvFactor = getKvCacheQuantFactor kvCacheQuant;
                       alpha = 0.2
                   in params * kvFactor * contextScale * alpha)
             else 0)
      in modelMem + kvCacheMem)"

definition getMaxUnifiedVram :: "real \<Rightarrow> real" where
  "getMaxUnifiedVram memGB = memGB * 0.75"

text \<open>The text of \<^verbatim>\<open>gpuType\<close>, with the capacity the template string interpolates:
  "Unified memory (ex: Apple silicon, ...)", "Unified memory (insufficient)",
  "Single \<open>n\<close>GB GPU" and "Discrete GPUs (\<open>n\<close>GB each)".\<close>

datatype gpuTypeText =
  Unified_memory
  | Unified_memory_insufficient
  | Single_GPU real
  | Discrete_GPUs real

record Recommendation =
  gpuType :: gpuTypeText
  vramNeeded :: real
  fitsUnified :: bool
  systemRamNeeded :: real
  gpusRequired :: "int option"

definition calculateHardwareRecommendation ::
  "real \<Rightarrow> string \<Rightarrow> bool \<Rightarrow> string \<Rightarrow> real \<Rightarrow> string \<Rightarrow> real \<Rightarrow> real \<Rightarrow> Recommendation" where
  "calculateHardwareRecommendation params modelQuant useKvCache kvCacheQuant contextLength
       memoryMode systemMemory gpuVram =
     (let requiredVram = calculateRequiredVram params modelQuant useKvCache kvCacheQuant
            contextLength;
          recSystemMemory = systemMemory
      in if memoryMode = ''UNIFIED_MEMORY''
         then (let unifiedLimit = getMaxUnifiedVram recSystemMemory
               in if requiredVram \<le> unifiedLimit
                  then \<lparr>gpuType = Unified_memory, vramNeeded = toFixed1 requiredVram,
                        fitsUnified = True, systemRamNeeded = recSystemMemory,
                        gpusRequired = Some 1\<rparr>
                  else \<lparr>gpuType = Unified_memory_insufficient,
                        vramNeeded = toFixed1 requiredVram, fitsUnified = False,
                        systemRamNeeded = recSystemMemory, gpusRequired = Some 0\<rparr>)
         else (let singleGpuVram = gpuVram
               in if requiredVram \<le> singleGpuVram
                  then \<lparr>gpuType = Single_GPU singleGpuVram,
                        vramNeeded = toFixed1 requiredVram, fitsUnified = False,
                        systemRamNeeded = max recSystemMemory requiredVram,
                        gpusRequired = Some 1\<rparr>
                  else (let count = map_option ceiling (js_div requiredVram singleGpuVram)
                        in \<lparr>gpuType = Discrete_GPUs singleGpuVram,
                             vramNeeded = toFixed1 requiredVram, fitsUnified = False,
                             systemRamNeeded = max recSystemMemory requiredVram,
                             gpusRequired = count\<rparr>)))"


section \<open>App.tsx, second component: one quantization, KV cache as a multiplier\<close>

text \<open>Source: \<^verbatim>\<open>src/src/App.tsx\<close>, lines 459 to 569. The discrete branch assumes
  a card of 24 GB.\<close>

definition getQuantizationFactor :: "string \<Rightarrow> real" where
  "getQuantizationFactor q =
     (if q = ''FP32'' then 4.0
      else if q = ''FP16'' then 2.0
      else if q = ''INT8'' then 1.0
      else if q = ''INT6'' then 0.75
      else if q = ''INT4'' then 0.5
      else if q = ''INT3'' then 0.375
      else if q = ''INT2'' then 0.25
      else if q = ''GPTQ'' then 0.4
      else if q = ''AWQ'' then 0.35
      else 1.0)"

definition calculateRequiredVram2 :: "real \<Rightarrow> string \<Rightarrow> real \<Rightarrow> bool \<Rightarrow> real" where
  "calculateRequiredVram2 params quantization contextLength useKvCache =
     (let quantFactor = getQuantizationFactor quantization;
          baseVram = params * quantFactor;
          contextScale = (if contextLength / 2048 < 1 then 1 else contextLength / 2048);
          kvCacheFactor = (if useKvCache then 1.2 else 1.0);
          totalVram = baseVram * contextScale * kvCacheFactor
      in totalVram)"

definition getMaxUnifiedVram2 :: "real \<Rightarrow> real" where
  "getMaxUnifiedVram2 memGB = memGB * 0.75"

definition calculateHardwareRecommendation2 ::
  "real \<Rightarrow> string \<Rightarrow> real \<Rightarrow> bool \<Rightarrow> string \<Rightarrow> real \<Rightarrow> Recommendation" where
  "calculateHardwareRecommendation2 params quantization contextLength useKvCache memoryMode
       systemMemory =
     (let requiredVram = calculateRequiredVram2 params quantization contextLength useKvCache;
          recSystemMemory = systemMemory
      in if memoryMode = ''UNIFIED_MEMORY''
         then (let unifiedLimit = getMaxUnifiedVram2 recSystemMemory
               in if requiredVram \<le> unifiedLimit
                  then \<lparr>gpuType = Unified_memory, vramNeeded = toFixed1 requiredVram,
                        fitsUnified = True, systemRamNeeded = recSystemMemory,
                        gpusRequired = Some 1\<rparr>
                  else \<lparr>gpuType = Unified_memory_insufficient,
                        vramNeeded = toFixed1 requiredVram, fitsUnified = False,
                        systemRamNeeded = recSystemMemory, gpusRequired = Some 0\<rparr>)
         else (let singleGpuVram = 24
               in if requiredVram \<le> singleGpuVram
                  then \<lparr>gpuType = Single_GPU singleGpuVram,
                        vramNeeded = toFixed1 requiredVram, fitsUnified = False,
                        systemRamNeeded = max recSystemMemory requiredVram,
                        gpusRequired = Some 1\<rparr>
                  else (let count = \<lceil>requiredVram / singleGpuVram\<rceil>
                        in \<lparr>gpuType = Discrete_GPUs singleGpuVram,
                             vramNeeded = toFixed1 requiredVram, fitsUnified = False,
                             systemRamNeeded = max recSystemMemory requiredVram,
                             gpusRequired = Some count\<rparr>)))"


section \<open>Lookups and their fallbacks\<close>

lemma js_or_pos: "0 < d \<Longrightarrow> (\<And>x. v = Some x \<Longrightarrow> 0 \<le> x) \<Longrightarrow> 0 < js_or v d"
  by (cases v) (auto simp: js_or_def)

lemma bytesPerParameter_values:
  "bytesPerParameter ''fp32'' = 4" "bytesPerParameter ''fp16'' = 2"
  "bytesPerParameter ''bf16'' = 2" "bytesPerParameter ''int8'' = 1"
  "bytesPerParameter ''int4'' = 1 / 2" "bytesPerParameter ''gptq'' = 1 / 2"
  by (simp_all add: bytesPerParameter_def bytesPerParameterTable_def js_or_def)

lemma bytesPerParameter_unknown:
  "q \<notin> fst ` set bytesPerParameterTable \<Longrightarrow> bytesPerParameter q = 2"
  by (simp add: bytesPerParameter_def js_or_def map_of_eq_None_iff [THEN iffD2])

lemma bytesPerParameter_pos: "0 < bytesPerParameter q"
  unfolding bytesPerParameter_def
  by (rule js_or_pos) (auto simp: bytesPerParameterTable_def split: if_splits)

lemma selectedGpuVram_rtx4090: "selectedGpuVram ''rtx4090'' = 24"
  by (simp add: selectedGpuVram_def gpuVramSizes_def js_or_def)

lemma selectedGpuVram_unknown:
  "g \<notin> fst ` set gpuVramSizes \<Longrightarrow> selectedGpuVram g = 24"
  by (simp add: selectedGpuVram_def js_or_def map_of_eq_None_iff [THEN iffD2])

lemma selectedGpuVram_pos: "0 < selectedGpuVram g"
  unfolding selectedGpuVram_def
  by (rule js_or_pos) (auto simp: gpuVramSizes_def split: if_splits)

lemma speedFactor_unknown:
  "g \<notin> fst ` set gpuSpeedFactors \<Longrightarrow> speedFactor g = 1"
  by (simp add: speedFactor_def js_or_def map_of_eq_None_iff [THEN iffD2])

lemma quantizationSpeedFactor_unknown:
  "q \<notin> fst ` set quantizationSpeedFactors \<Longrightarrow> quantizationSpeedFactor q = 1"
  by (simp add: quantizationSpeedFactor_def js_or_def map_of_eq_None_iff [THEN iffD2])

text \<open>Outside the inherited property names the lookup of every key is the number that
  \<open>js_or\<close> computes from the listed entries.\<close>

lemma js_get_or_proper:
  "key \<notin> set objectPrototypeProperties \<Longrightarrow>
   js_get_or table key d = Some (js_or (map_of table key) d)"
  by (simp add: js_get_or_def js_get_def js_or_def split: option.splits)

lemma js_get_or_missing:
  "key \<notin> fst ` set table \<Longrightarrow> key \<notin> set objectPrototypeProperties \<Longrightarrow>
   js_get_or table key d = Some d"
  by (simp add: js_get_or_def js_get_def map_of_eq_None_iff [THEN iffD2])

lemma factorText_missing:
  "key \<notin> fst ` set table \<Longrightarrow> key \<notin> set objectPrototypeProperties \<Longrightarrow>
   factorText table key = Inr 1"
  by (simp add: factorText_def js_get_def map_of_eq_None_iff [THEN iffD2])

section \<open>Arithmetic of the GPU count and of the head count\<close>

lemma ceiling_le_one_iff: "0 < d \<Longrightarrow> (\<lceil>v / d\<rceil> \<le> 1) = (v \<le> (d::real))"
  by (simp add: ceiling_le_iff pos_divide_le_eq)

lemma ceiling_ge_two_iff: "0 < d \<Longrightarrow> (2 \<le> \<lceil>v / d\<rceil>) = (\<not> v \<le> (d::real))"
  using ceiling_le_one_iff [of d v] by linarith

lemma ceiling_ge_one_iff: "0 < d \<Longrightarrow> (1 \<le> \<lceil>v / d\<rceil>) = (0 < (v::real))"
  by (simp add: less_ceiling_iff [symmetric] zero_less_divide_iff
        flip: int_one_le_iff_zero_less)

lemma numHeads_mono:
  "m \<le> m' \<Longrightarrow>
   \<lceil>(m * 1000000000) / (4 * 768 * 768 :: real)\<rceil> \<le> \<lceil>(m' * 1000000000) / (4 * 768 * 768)\<rceil>"
  by (rule ceiling_mono) (simp add: divide_right_mono)

lemma numHeads_nonneg: "0 \<le> m \<Longrightarrow> 0 \<le> \<lceil>(m * 1000000000) / (4 * 768 * 768 :: real)\<rceil>"
  using numHeads_mono [of 0 m] by simp

lemma numHeads_7: "\<lceil>(7 * 1000000000) / (4 * 768 * 768 :: real)\<rceil> = 2967"
  by (simp add: ceiling_eq_iff)

lemma numHeads_65: "\<lceil>(65 * 1000000000) / (4 * 768 * 768 :: real)\<rceil> = 27551"
  by (simp add: ceiling_eq_iff)

lemma log2_4: "log 2 4 = (2::real)"
proof -
  have "log 2 (2 ^ 2) = real 2" by (rule log_pow_cancel) simp_all
  then show ?thesis by simp
qed

lemma kv_product_mono:
  fixes h c b :: real
  assumes "0 \<le> h" "h \<le> h'" "0 \<le> c" "c \<le> c'" "0 \<le> b" "b \<le> b'"
  shows "2 * h * 128 * c * b * 2 \<le> 2 * h' * 128 * c' * b' * 2"
proof -
  have "h * c \<le> h' * c'" using assms by (intro mult_mono) auto
  moreover have "0 \<le> h' * c'" using assms by simp
  ultimately have "h * c * b \<le> h' * c' * b'" using assms by (intro mult_mono) auto
  then show ?thesis by simp
qed

section \<open>The results of \<^verbatim>\<open>calculateRequirements\<close>, field by field\<close>

lemma vramRequired_eq:
  "vramRequired (calculateRequirements modelSize contextLength q enableKVCache batchSize
      gpuModel systemRAM unifiedMemory) =
   (modelSize * 1000000000 * bytesPerParameter q
      + (if enableKVCache
         then 2 * of_int \<lceil>(modelSize * 1000000000) / (4 * 768 * 768)\<rceil> * 128
                * contextLength * batchSize * 2
         else 0)) / 2 ^ 30"
  by (simp add: calculateRequirements_def Let_def)

text \<open>The stored VRAM is the value the comparison chart computes for the selected
  quantization; no hardware input enters it.\<close>

lemma vramRequired_hardware_free:
  "vramRequired (calculateRequirements modelSize contextLength q enableKVCache batchSize
      gpuModel systemRAM unifiedMemory) =
   calculateVram modelSize contextLength enableKVCache batchSize (bytesPerParameter q)"
  by (simp add: calculateRequirements_def calculateVram_def Let_def)

lemma systemRAMRequired_eq:
  "systemRAMRequired (calculateRequirements m c q kv b g s u)
     = vramRequired (calculateRequirements m c q kv b g s u) * 1.5"
  by (simp only: calculateRequirements_def Let_def requirements.select_convs)


lemma gpusNeeded_eq:
  "gpusNeeded (calculateRequirements modelSize contextLength q enableKVCache batchSize
      gpuModel systemRAM unifiedMemory) =
   (if unifiedMemory
    then map_option ceiling
           (js_div (vramRequired (calculateRequirements modelSize contextLength q
              enableKVCache batchSize gpuModel systemRAM unifiedMemory)) (systemRAM * 0.75))
    else map_option ceiling
           (js_div (vramRequired (calculateRequirements modelSize contextLength q
              enableKVCache batchSize gpuModel systemRAM unifiedMemory))
              (selectedGpuVram gpuModel)))"
  by (simp only: calculateRequirements_def Let_def requirements.select_convs)

lemma gpusNeeded_unified:
  "systemRAM \<noteq> 0 \<Longrightarrow>
   gpusNeeded (calculateRequirements modelSize contextLength q enableKVCache batchSize
      gpuModel systemRAM True) =
   Some \<lceil>vramRequired (calculateRequirements modelSize contextLength q enableKVCache batchSize
      gpuModel systemRAM True) / (systemRAM * 0.75)\<rceil>"
  by (simp only: gpusNeeded_eq js_div_def) simp

lemma gpusNeeded_discrete:
  "gpusNeeded (calculateRequirements modelSize contextLength q enableKVCache batchSize
      gpuModel systemRAM False) =
   Some \<lceil>vramRequired (calculateRequirements modelSize contextLength q enableKVCache batchSize
      gpuModel systemRAM False) / selectedGpuVram gpuModel\<rceil>"
  using selectedGpuVram_pos [of gpuModel]
  by (simp only: gpusNeeded_eq js_div_def) simp

lemma inferenceSpeed_eq:
  "inferenceSpeed (calculateRequirements modelSize contextLength q enableKVCache batchSize
      gpuModel systemRAM unifiedMemory) =
   (case (js_div 7 modelSize,
          gpusNeeded (calculateRequirements modelSize contextLength q enableKVCache batchSize
            gpuModel systemRAM unifiedMemory)) of
      (Some f, Some g) \<Rightarrow>
        Some (30 * speedFactor gpuModel * quantizationSpeedFactor q * f * of_int g)
    | _ \<Rightarrow> None)"
  by (simp only: calculateRequirements_def Let_def requirements.select_convs)

lemma vramRequired_40:
  "vramRequired (calculateRequirements (4294967296 / 100000000) contextLength ''int8'' False
      batchSize gpuModel systemRAM unifiedMemory) = 40"
  by (simp add: vramRequired_eq bytesPerParameter_values)

lemma vramRequired_70_int8:
  "vramRequired (calculateRequirements 70 contextLength ''int8'' False batchSize gpuModel
      systemRAM unifiedMemory) = 70000000000 / 2 ^ 30"
  by (simp add: vramRequired_eq bytesPerParameter_values)

section \<open>Monotonicity and positivity of \<^verbatim>\<open>calculateVram\<close>\<close>

lemma calculateVram_mono:
  assumes "0 \<le> m" "m \<le> m'" "0 \<le> c" "c \<le> c'" "0 \<le> b" "b \<le> b'" "0 \<le> bp" "bp \<le> bp'"
  shows "calculateVram m c kv b bp \<le> calculateVram m' c' kv b' bp'"
proof -
  define h :: real where "h = of_int \<lceil>(m * 1000000000) / (4 * 768 * 768)\<rceil>"
  define h' :: real where "h' = of_int \<lceil>(m' * 1000000000) / (4 * 768 * 768)\<rceil>"
  have h0: "0 \<le> h"
    unfolding h_def using numHeads_nonneg [OF assms(1)] by (simp only: of_int_0_le_iff)
  have hh: "h \<le> h'"
    unfolding h_def h'_def using numHeads_mono [OF assms(2)] by (simp only: of_int_le_iff)
  have "m * bp \<le> m' * bp'" using assms by (intro mult_mono) auto
  then have "m * bp * 1000000000 \<le> m' * bp' * 1000000000" by (rule mult_right_mono) simp
  then have 1: "m * 1000000000 * bp \<le> m' * 1000000000 * bp'"
    by (simp only: mult.assoc mult.commute [of bp] mult.commute [of bp'])
  have 2: "2 * h * 128 * c * b * 2 \<le> 2 * h' * 128 * c' * b' * 2"
    using h0 hh assms(3-6) by (rule kv_product_mono)
  have v: "calculateVram m c kv b bp
      = (m * 1000000000 * bp + (if kv then 2 * h * 128 * c * b * 2 else 0))
          / (1024 * 1024 * 1024)"
    "calculateVram m' c' kv b' bp'
      = (m' * 1000000000 * bp' + (if kv then 2 * h' * 128 * c' * b' * 2 else 0))
          / (1024 * 1024 * 1024)"
    by (simp_all only: calculateVram_def Let_def h_def h'_def)
  have "m * 1000000000 * bp + (if kv then 2 * h * 128 * c * b * 2 else 0)
      \<le> m' * 1000000000 * bp' + (if kv then 2 * h' * 128 * c' * b' * 2 else 0)"
  proof (cases kv)
    case True
    with 1 2 show ?thesis by (simp only: if_True add_mono)
  next
    case False
    with 1 show ?thesis by (simp only: if_False add_0_right)
  qed
  then show ?thesis unfolding v by (rule divide_right_mono) simp
qed

lemma calculateVram_pos:
  assumes "0 < m" "0 \<le> c" "0 \<le> b" "0 < bp"
  shows "0 < calculateVram m c kv b bp"
proof -
  define h :: real where "h = of_int \<lceil>(m * 1000000000) / (4 * 768 * 768)\<rceil>"
  have h0: "0 \<le> h"
    unfolding h_def using numHeads_nonneg [of m] assms(1)
    by (simp only: of_int_0_le_iff less_imp_le)
  have 1: "0 < m * 1000000000 * bp" using assms by simp
  have "0 \<le> h * c * b" using h0 assms by simp
  then have 2: "0 \<le> 2 * h * 128 * c * b * 2" by simp
  have v: "calculateVram m c kv b bp
      = (m * 1000000000 * bp + (if kv then 2 * h * 128 * c * b * 2 else 0))
          / (1024 * 1024 * 1024)"
    by (simp only: calculateVram_def Let_def h_def)
  have "0 < m * 1000000000 * bp + (if kv then 2 * h * 128 * c * b * 2 else 0)"
    using 1 2 by (cases kv) (simp_all only: if_True if_False add_pos_nonneg add_0_right)
  then show ?thesis unfolding v by simp
qed

lemma vramRequired_pos:
  "0 < m \<Longrightarrow> 0 \<le> c \<Longrightarrow> 0 \<le> b \<Longrightarrow>
   0 < vramRequired (calculateRequirements m c q kv b g s u)"
  by (simp only: vramRequired_hardware_free calculateVram_pos bytesPerParameter_pos)

section \<open>The recommendations of App.tsx, field by field\<close>

lemma recommendation_unified:
  "fitsUnified (calculateHardwareRecommendation params modelQuant useKvCache kvCacheQuant
      contextLength ''UNIFIED_MEMORY'' systemMemory gpuVram)
     = (calculateRequiredVram params modelQuant useKvCache kvCacheQuant contextLength
          \<le> systemMemory * 0.75)"
  "gpusRequired (calculateHardwareRecommendation params modelQuant useKvCache kvCacheQuant
      contextLength ''UNIFIED_MEMORY'' systemMemory gpuVram)
     = Some (if calculateRequiredVram params modelQuant useKvCache kvCacheQuant contextLength
                \<le> systemMemory * 0.75 then 1 else 0)"
  by (simp_all add: calculateHardwareRecommendation_def Let_def getMaxUnifiedVram_def)

lemma recommendation2_unified:
  "fitsUnified (calculateHardwareRecommendation2 params quantization contextLength useKvCache
      ''UNIFIED_MEMORY'' systemMemory)
     = (calculateRequiredVram2 params quantization contextLength useKvCache
          \<le> systemMemory * 0.75)"
  "gpusRequired (calculateHardwareRecommendation2 params quantization contextLength useKvCache
      ''UNIFIED_MEMORY'' systemMemory)
     = Some (if calculateRequiredVram2 params quantization contextLength useKvCache
                \<le> systemMemory * 0.75 then 1 else 0)"
  by (simp_all add: calculateHardwareRecommendation2_def Let_def getMaxUnifiedVram2_def)

lemma systemRamNeeded_eq:
  "systemRamNeeded (calculateHardwareRecommendation p mq k kq c mm sm gv)
     = (if mm = ''UNIFIED_MEMORY'' then sm else max sm (calculateRequiredVram p mq k kq c))"
  by (simp add: calculateHardwareRecommendation_def Let_def)

lemma systemRamNeeded2_eq:
  "systemRamNeeded (calculateHardwareRecommendation2 p q c k mm sm)
     = (if mm = ''UNIFIED_MEMORY'' then sm else max sm (calculateRequiredVram2 p q c k))"
  by (simp add: calculateHardwareRecommendation2_def Let_def)

lemma calculateRequiredVram_40: "calculateRequiredVram 40 ''Q8'' False kvCacheQuant 2048 = 40"
  by (simp add: calculateRequiredVram_def getModelQuantFactor_def Let_def)

lemma calculateRequiredVram2_40: "calculateRequiredVram2 40 ''INT8'' 2048 False = 40"
  by (simp add: calculateRequiredVram2_def getQuantizationFactor_def Let_def)

lemma calculateRequiredVram_14: "calculateRequiredVram 7 ''F16'' False kvCacheQuant 2048 = 14"
  by (simp add: calculateRequiredVram_def getModelQuantFactor_def Let_def)



section \<open>Unified memory: the fit flag and the GPU count\<close>

text \<open>
  C1. With unified memory and a positive amount of system RAM, both components of App.tsx
  set \<^verbatim>\<open>fitsUnified\<close> to \<open>requiredVram \<le> systemMemory \<times> 0.75\<close> and
  \<^verbatim>\<open>gpusRequired\<close> to 1 when the model fits and to 0 when it does not.
  \<^verbatim>\<open>calculateRequirements\<close> of calculator.tsx has the same fit test (the flag
  \<^verbatim>\<open>isVramSufficient\<close> of its results display), but its GPU count is
  \<open>\<lceil>requiredVram / (systemRAM \<times> 0.75)\<rceil>\<close>: at most 1 when the model fits and at least 2
  when it does not, never 0 for a model that does not fit.
\<close>

theorem unified_memory_gpu_count:
  assumes "0 < systemRAM"
  shows
    "(let r = calculateHardwareRecommendation params modelQuant useKvCache kvCacheQuant
                contextLength ''UNIFIED_MEMORY'' systemRAM gpuVram;
          requiredVram = calculateRequiredVram params modelQuant useKvCache kvCacheQuant
                contextLength
      in fitsUnified r = (requiredVram \<le> systemRAM * 0.75)
         \<and> gpusRequired r = Some (if fitsUnified r then 1 else 0))
     \<and> (let r = calculateHardwareRecommendation2 params quantization contextLength useKvCache
                ''UNIFIED_MEMORY'' systemRAM;
          requiredVram = calculateRequiredVram2 params quantization contextLength useKvCache
      in fitsUnified r = (requiredVram \<le> systemRAM * 0.75)
         \<and> gpusRequired r = Some (if fitsUnified r then 1 else 0))
     \<and> (let R = calculateRequirements modelSize contextLength quantizationMethod enableKVCache
                batchSize gpuModel systemRAM True;
          fits = isVramSufficient (vramRequired R) gpuModel True systemRAM
      in fits = (vramRequired R \<le> systemRAM * 0.75)
         \<and> gpusNeeded R = Some \<lceil>vramRequired R / (systemRAM * 0.75)\<rceil>
         \<and> (if fits then \<lceil>vramRequired R / (systemRAM * 0.75)\<rceil> \<le> 1
             else 2 \<le> \<lceil>vramRequired R / (systemRAM * 0.75)\<rceil>)
         \<and> (fits \<and> 0 < vramRequired R \<longrightarrow> gpusNeeded R = Some 1))"
proof -
  have d: "0 < systemRAM * 0.75" using assms by simp
  have a: "systemRAM \<noteq> 0" using assms by simp
  show ?thesis
    unfolding Let_def
    using ceiling_le_one_iff [OF d] ceiling_ge_two_iff [OF d] ceiling_ge_one_iff [OF d]
    by (simp only: recommendation_unified recommendation2_unified gpusNeeded_unified [OF a]
          isVramSufficient_def if_True) (simp add: order_antisym)
qed

text \<open>
  The scenario of the specification, 16 GB of system RAM and a requirement of 40 GB
  (40 billion parameters at one byte each in App.tsx; 42.94967296 billion in
  calculator.tsx, where a GB is \<open>2\<^sup>3\<^sup>0\<close> bytes): App.tsx reports no fit and 0 GPUs,
  calculator.tsx stores 4 GPUs. With 64 GB of system RAM the same requirement fits, and
  every calculator reports 1 GPU.
\<close>

theorem unified_memory_gpu_count_witness:
  "(0::real) < 16 \<and> (0::real) < 64
   \<and> calculateRequiredVram 40 ''Q8'' False ''F16'' 2048 = 40
   \<and> fitsUnified (calculateHardwareRecommendation 40 ''Q8'' False ''F16'' 2048
        ''UNIFIED_MEMORY'' 16 24) = False
   \<and> gpusRequired (calculateHardwareRecommendation 40 ''Q8'' False ''F16'' 2048
        ''UNIFIED_MEMORY'' 16 24) = Some 0
   \<and> fitsUnified (calculateHardwareRecommendation2 40 ''INT8'' 2048 False
        ''UNIFIED_MEMORY'' 16) = False
   \<and> gpusRequired (calculateHardwareRecommendation2 40 ''INT8'' 2048 False
        ''UNIFIED_MEMORY'' 16) = Some 0
   \<and> gpusNeeded (calculateRequirements (4294967296 / 100000000) 2048 ''int8'' False 1
        ''rtx4090'' 16 True) = Some 4
   \<and> fitsUnified (calculateHardwareRecommendation 40 ''Q8'' False ''F16'' 2048
        ''UNIFIED_MEMORY'' 64 24) = True
   \<and> gpusRequired (calculateHardwareRecommendation 40 ''Q8'' False ''F16'' 2048
        ''UNIFIED_MEMORY'' 64 24) = Some 1
   \<and> gpusNeeded (calculateRequirements (4294967296 / 100000000) 2048 ''int8'' False 1
        ''rtx4090'' 64 True) = Some 1"
proof -
  have h: "(0::real) < 16" "(0::real) < 64" by simp_all
  note t = unified_memory_gpu_count [OF h(1), of 40 "''Q8''" False "''F16''" 2048 24
      "''INT8''" "4294967296 / 100000000" "''int8''" False 1 "''rtx4090''", unfolded Let_def
      vramRequired_40 calculateRequiredVram_40 calculateRequiredVram2_40]
  note u = unified_memory_gpu_count [OF h(2), of 40 "''Q8''" False "''F16''" 2048 24
      "''INT8''" "4294967296 / 100000000" "''int8''" False 1 "''rtx4090''", unfolded Let_def
      vramRequired_40 calculateRequiredVram_40 calculateRequiredVram2_40]
  show ?thesis
    using h t u by (simp add: calculateRequiredVram_40)
qed

text \<open>
  Against C1 as stated: in calculator.tsx, unified memory with 16 GB of system RAM and a
  requirement of exactly 40 GB does not fit, and the stored GPU count is 4, not 0.
\<close>

theorem calculateRequirements_unified_counterexample:
  "vramRequired (calculateRequirements (4294967296 / 100000000) 4096 ''int8'' False 1
      ''rtx4090'' 16 True) = 40
   \<and> \<not> isVramSufficient 40 ''rtx4090'' True 16
   \<and> gpusNeeded (calculateRequirements (4294967296 / 100000000) 4096 ''int8'' False 1
        ''rtx4090'' 16 True) = Some 4
   \<and> gpusNeeded (calculateRequirements (4294967296 / 100000000) 4096 ''int8'' False 1
        ''rtx4090'' 16 True) \<noteq> Some 0"
proof -
  have g: "gpusNeeded (calculateRequirements (4294967296 / 100000000) 4096 ''int8'' False 1
        ''rtx4090'' 16 True) =
      Some \<lceil>vramRequired (calculateRequirements (4294967296 / 100000000) 4096 ''int8''
        False 1 ''rtx4090'' 16 True) / (16 * 0.75)\<rceil>"
    by (rule gpusNeeded_unified) simp
  show ?thesis
    unfolding g vramRequired_40 by (simp add: isVramSufficient_def)
qed

section \<open>The KV-cache term\<close>

text \<open>
  C2. Enabling the KV cache in \<^verbatim>\<open>calculateRequirements\<close> adds
  \<open>2 \<times> numHeads \<times> 128 \<times> contextLength \<times> batchSize \<times> 2\<close> bytes, with
  \<open>numHeads = \<lceil>modelSize \<times> 10\<^sup>9 / (4 \<times> 768 \<times> 768)\<rceil>\<close>. The last factor is the fixed
  width of 2 bytes (fp16): calculator.tsx has no KV-cache quantization, and the term
  does not depend on the model quantization either. It is the value the stated formula
  takes for a half-precision KV cache only.
\<close>

theorem kv_cache_term_fixed_width:
  "vramRequired (calculateRequirements modelSize contextLength q True batchSize
      gpuModel systemRAM unifiedMemory)
     - vramRequired (calculateRequirements modelSize contextLength q False batchSize
         gpuModel systemRAM unifiedMemory)
   = (2 * of_int \<lceil>(modelSize * 1000000000) / (4 * 768 * 768)\<rceil> * 128 * contextLength
        * batchSize * 2) / 2 ^ 30
   \<and> vramRequired (calculateRequirements modelSize contextLength q True batchSize
        gpuModel systemRAM unifiedMemory)
     - vramRequired (calculateRequirements modelSize contextLength q False batchSize
         gpuModel systemRAM unifiedMemory)
   = (2 * of_int \<lceil>(modelSize * 1000000000) / (4 * 768 * 768)\<rceil> * 128 * contextLength
        * batchSize * getKvCacheQuantFactor ''F16'') / 2 ^ 30"
  by (simp add: vramRequired_eq getKvCacheQuantFactor_def diff_divide_distrib [symmetric]
        add_divide_distrib)

text \<open>
  Against C2 as stated: for 7 billion parameters, context length 4096 and batch size 1
  the code adds 6222249984 bytes, while the formula with the bytes per parameter of an
  8-bit KV cache (1 byte) gives 3111124992.
\<close>

theorem kv_cache_term_counterexample:
  "(vramRequired (calculateRequirements 7 4096 ''fp16'' True 1 ''rtx4090'' 32 False)
     - vramRequired (calculateRequirements 7 4096 ''fp16'' False 1 ''rtx4090'' 32 False))
     * 2 ^ 30
   = 6222249984
   \<and> 2 * of_int \<lceil>(7 * 1000000000) / (4 * 768 * 768 :: real)\<rceil> * 128 * 4096 * 1
       * getKvCacheQuantFactor ''Q8'' = (3111124992 :: real)
   \<and> (vramRequired (calculateRequirements 7 4096 ''fp16'' True 1 ''rtx4090'' 32 False)
     - vramRequired (calculateRequirements 7 4096 ''fp16'' False 1 ''rtx4090'' 32 False))
     * 2 ^ 30
   \<noteq> 2 * of_int \<lceil>(7 * 1000000000) / (4 * 768 * 768 :: real)\<rceil> * 128 * 4096 * 1
       * getKvCacheQuantFactor ''Q8''"
  by (simp add: vramRequired_eq getKvCacheQuantFactor_def numHeads_7 bytesPerParameter_values)

section \<open>Batch scaling\<close>

text \<open>
  C3. The batch factor of the speed chart, \<open>log\<^sub>2 b / log\<^sub>2 4 + 0.5\<close>, is 1.5 at batch
  size 4; it is 1.0 at batch size 2. Both sizes are points of the chart.
\<close>

theorem batchSizeFactor_at_4_and_2:
  "batchSizeFactor 4 = 1.5 \<and> batchSizeFactor 2 = 1.0
   \<and> 4 \<in> set batchSizes \<and> 2 \<in> set batchSizes"
  by (simp add: batchSizeFactor_def log2_4 batchSizes_def)

text \<open>Against C3 as stated: at batch size 4 the factor is not 1.0.\<close>

theorem batchSizeFactor_4_counterexample: "batchSizeFactor 4 \<noteq> 1.0"
  by (simp add: batchSizeFactor_def log2_4)

section \<open>VRAM without the KV cache\<close>

text \<open>
  C4. With the KV cache disabled, \<^verbatim>\<open>calculateRequirements\<close> stores as VRAM exactly
  \<open>modelSize \<times> 10\<^sup>9 \<times> bytes / 2\<^sup>3\<^sup>0\<close> GB, where the bytes per parameter are those of
  its own table: 4 for fp32, 2 for fp16 and bf16, 1 for int8, 0.5 for int4 and gptq. The
  table has no entry for a 6-, 5-, 3- or 2-bit quantization nor for AWQ: every
  quantization that is neither listed nor an inherited property name counts 2 bytes.
  For 7 billion parameters in fp16, context length 4096 and batch size 1 the VRAM is
  \<open>14 \<times> 10\<^sup>9 / 2\<^sup>3\<^sup>0\<close>, which is 13.04 to two decimals.
\<close>

theorem vramRequired_without_kv_cache:
  assumes "q \<notin> fst ` set bytesPerParameterTable" "q \<notin> set objectPrototypeProperties"
  shows
    "vramRequired (calculateRequirements modelSize contextLength ''fp32'' False batchSize
        gpuModel systemRAM unifiedMemory) = modelSize * 1000000000 * 4 / 2 ^ 30
     \<and> vramRequired (calculateRequirements modelSize contextLength ''fp16'' False batchSize
        gpuModel systemRAM unifiedMemory) = modelSize * 1000000000 * 2 / 2 ^ 30
     \<and> vramRequired (calculateRequirements modelSize contextLength ''bf16'' False batchSize
        gpuModel systemRAM unifiedMemory) = modelSize * 1000000000 * 2 / 2 ^ 30
     \<and> vramRequired (calculateRequirements modelSize contextLength ''int8'' False batchSize
        gpuModel systemRAM unifiedMemory) = modelSize * 1000000000 * 1 / 2 ^ 30
     \<and> vramRequired (calculateRequirements modelSize contextLength ''int4'' False batchSize
        gpuModel systemRAM unifiedMemory) = modelSize * 1000000000 * 0.5 / 2 ^ 30
     \<and> vramRequired (calculateRequirements modelSize contextLength ''gptq'' False batchSize
        gpuModel systemRAM unifiedMemory) = modelSize * 1000000000 * 0.5 / 2 ^ 30
     \<and> js_get_or bytesPerParameterTable q 2 = Some 2
     \<and> vramRequired (calculateRequirements modelSize contextLength q False batchSize
        gpuModel systemRAM unifiedMemory) = modelSize * 1000000000 * 2 / 2 ^ 30
     \<and> vramRequired (calculateRequirements 7 4096 ''fp16'' False 1 gpuModel systemRAM
          unifiedMemory) = 14000000000 / 2 ^ 30
     \<and> \<bar>vramRequired (calculateRequirements 7 4096 ''fp16'' False 1 gpuModel systemRAM
          unifiedMemory) - 13.04\<bar> < 0.005"
proof -
  note u = bytesPerParameter_unknown [OF assms(1)]
  note l = js_get_or_missing [OF assms]
  show ?thesis
    by (simp add: vramRequired_eq bytesPerParameter_values u l)
qed

text \<open>The 2-bit quantization of App.tsx, \<^verbatim>\<open>Q2\<close>, is no key of the table: 7 billion
  parameters count 2 bytes each.\<close>

theorem vramRequired_without_kv_cache_witness:
  "''Q2'' \<notin> fst ` set bytesPerParameterTable \<and> ''Q2'' \<notin> set objectPrototypeProperties
   \<and> js_get_or bytesPerParameterTable ''Q2'' 2 = Some 2
   \<and> vramRequired (calculateRequirements 7 4096 ''Q2'' False 1 ''rtx4090'' 32 False)
       = 14000000000 / 2 ^ 30
   \<and> vramRequired (calculateRequirements 7 4096 ''fp32'' False 1 ''rtx4090'' 32 False)
       = 28000000000 / 2 ^ 30
   \<and> vramRequired (calculateRequirements 7 4096 ''int4'' False 1 ''rtx4090'' 32 False)
       = 3500000000 / 2 ^ 30"
proof -
  have h: "''Q2'' \<notin> fst ` set bytesPerParameterTable"
    "''Q2'' \<notin> set objectPrototypeProperties"
    by (simp_all add: bytesPerParameterTable_def objectPrototypeProperties_def)
  note t = vramRequired_without_kv_cache [OF h, of 7 4096 1 "''rtx4090''" 32 False]
  from t h show ?thesis by simp
qed

text \<open>
  Against C4 as stated: a 2-bit quantization has 0.25 bytes per parameter (the factor of
  \<^verbatim>\<open>Q2\<close> in App.tsx), so the stated formula gives \<open>7 \<times> 10\<^sup>9 \<times> 0.25 / 2\<^sup>3\<^sup>0\<close> GB for 7
  billion parameters; \<^verbatim>\<open>calculateRequirements\<close> stores \<open>7 \<times> 10\<^sup>9 \<times> 2 / 2\<^sup>3\<^sup>0\<close>, for the
  key \<^verbatim>\<open>Q2\<close> as for the key \<^verbatim>\<open>int2\<close>.
\<close>

theorem vramRequired_2bit_counterexample:
  "getModelQuantFactor ''Q2'' = 0.25
   \<and> vramRequired (calculateRequirements 7 4096 ''Q2'' False 1 ''rtx4090'' 32 False)
       = 7 * 1000000000 * 2 / 2 ^ 30
   \<and> vramRequired (calculateRequirements 7 4096 ''Q2'' False 1 ''rtx4090'' 32 False)
       \<noteq> 7 * 1000000000 * getModelQuantFactor ''Q2'' / 2 ^ 30
   \<and> vramRequired (calculateRequirements 7 4096 ''int2'' False 1 ''rtx4090'' 32 False)
       \<noteq> 7 * 1000000000 * 0.25 / 2 ^ 30"
  by (simp add: vramRequired_eq getModelQuantFactor_def bytesPerParameter_def
        bytesPerParameterTable_def js_or_def)

section \<open>Discrete GPUs: the GPU count and the fit flag\<close>

text \<open>
  C5. With a discrete GPU and a positive model size (context length and batch size not
  negative), \<^verbatim>\<open>calculateRequirements\<close> stores the GPU count
  \<open>\<lceil>requiredVram / capacity\<rceil>\<close>, which is at least 1, where the capacity is the table
  entry of the GPU model or 24. The fit flag of the results display,
  \<^verbatim>\<open>isVramSufficient\<close>, is \<open>requiredVram \<le> capacity\<close>: it is true exactly when the
  count is 1, so a requirement above the capacity of one GPU gives both a larger count
  and a false flag.
\<close>

theorem discrete_gpu_count:
  assumes "0 < modelSize" "0 \<le> contextLength" "0 \<le> batchSize"
  shows
    "(let R = calculateRequirements modelSize contextLength quantizationMethod enableKVCache
                batchSize gpuModel systemRAM False;
          capacity = selectedGpuVram gpuModel;
          fits = isVramSufficient (vramRequired R) gpuModel False systemRAM
      in gpusNeeded R = Some \<lceil>vramRequired R / capacity\<rceil>
         \<and> gpusNeeded R = Some (max 1 \<lceil>vramRequired R / capacity\<rceil>)
         \<and> fits = (vramRequired R \<le> capacity)
         \<and> fits = (gpusNeeded R = Some 1))"
proof -
  let ?R = "calculateRequirements modelSize contextLength quantizationMethod enableKVCache
                batchSize gpuModel systemRAM False"
  have v: "0 < vramRequired ?R" using assms by (rule vramRequired_pos)
  have c: "0 < selectedGpuVram gpuModel" by (rule selectedGpuVram_pos)
  have g1: "1 \<le> \<lceil>vramRequired ?R / selectedGpuVram gpuModel\<rceil>"
    using ceiling_ge_one_iff [OF c] v by simp
  have le1: "(\<lceil>vramRequired ?R / selectedGpuVram gpuModel\<rceil> \<le> 1)
      = (vramRequired ?R \<le> selectedGpuVram gpuModel)"
    by (rule ceiling_le_one_iff [OF c])
  have eq1: "(\<lceil>vramRequired ?R / selectedGpuVram gpuModel\<rceil> = 1)
      = (vramRequired ?R \<le> selectedGpuVram gpuModel)"
    using g1 le1 by linarith
  show ?thesis
    unfolding Let_def gpusNeeded_discrete isVramSufficient_def
    using g1 eq1 by (simp add: max_def)
qed

text \<open>70 billion parameters at 8 bits on a 24 GB card: 3 GPUs, and the flag is false.\<close>

theorem discrete_gpu_count_witness:
  "(0::real) < 70 \<and> (0::real) \<le> 8192 \<and> (0::real) \<le> 1
   \<and> gpusNeeded (calculateRequirements 70 8192 ''int8'' False 1 ''rtx4090'' 32 False) = Some 3
   \<and> \<not> isVramSufficient
        (vramRequired (calculateRequirements 70 8192 ''int8'' False 1 ''rtx4090'' 32 False))
        ''rtx4090'' False 32"
proof -
  have h: "(0::real) < 70" "(0::real) \<le> 8192" "(0::real) \<le> 1" by simp_all
  note t = discrete_gpu_count [OF h, of "''int8''" False "''rtx4090''" 32, unfolded Let_def
      vramRequired_70_int8 selectedGpuVram_rtx4090]
  have c: "\<lceil>(70000000000 / 2 ^ 30) / (24::real)\<rceil> = 3" by (simp add: ceiling_eq_iff)
  have g: "gpusNeeded (calculateRequirements 70 8192 ''int8'' False 1 ''rtx4090'' 32 False)
      = Some 3"
    using t unfolding c by (elim conjE)
  have "isVramSufficient (70000000000 / 2 ^ 30) ''rtx4090'' False 32
      = (gpusNeeded (calculateRequirements 70 8192 ''int8'' False 1 ''rtx4090'' 32 False)
          = Some 1)"
    using t by (elim conjE)
  then have "\<not> isVramSufficient (70000000000 / 2 ^ 30) ''rtx4090'' False 32"
    unfolding g by simp
  with g h show ?thesis unfolding vramRequired_70_int8 by simp
qed

text \<open>
  Against C5 as stated: the GPU count is 3, which is at least 1, and the fit flag is
  false.
\<close>

theorem discrete_gpu_fit_counterexample:
  "gpusNeeded (calculateRequirements 70 8192 ''int8'' False 1 ''rtx4090'' 32 False) = Some 3
   \<and> \<not> isVramSufficient
        (vramRequired (calculateRequirements 70 8192 ''int8'' False 1 ''rtx4090'' 32 False))
        ''rtx4090'' False 32"
proof -
  have c: "\<lceil>(70000000000 / 2 ^ 30) / (24::real)\<rceil> = 3" by (simp add: ceiling_eq_iff)
  show ?thesis
    unfolding gpusNeeded_discrete vramRequired_70_int8 selectedGpuVram_rtx4090
      isVramSufficient_def c
    by simp
qed

section \<open>System RAM\<close>

text \<open>
  C6. \<^verbatim>\<open>calculateRequirements\<close> of calculator.tsx stores as system RAM exactly 1.5
  times the VRAM it stores, whatever the declared system RAM is. In both components of
  App.tsx the field \<^verbatim>\<open>systemRamNeeded\<close> is the declared system memory under unified
  memory and the larger of the declared system memory and the required VRAM with a
  discrete GPU, so there it follows the declared amount.
\<close>

theorem system_ram_requirement:
  "systemRAMRequired (calculateRequirements modelSize contextLength quantizationMethod
      enableKVCache batchSize gpuModel systemRAM unifiedMemory)
     = 1.5 * vramRequired (calculateRequirements modelSize contextLength quantizationMethod
         enableKVCache batchSize gpuModel systemRAM unifiedMemory)
   \<and> systemRAMRequired (calculateRequirements modelSize contextLength quantizationMethod
        enableKVCache batchSize gpuModel systemRAM unifiedMemory)
     = systemRAMRequired (calculateRequirements modelSize contextLength quantizationMethod
        enableKVCache batchSize gpuModel systemRAM' unifiedMemory)
   \<and> systemRamNeeded (calculateHardwareRecommendation params modelQuant useKvCache
        kvCacheQuant contextLength memoryMode systemMemory gpuVram)
     = (if memoryMode = ''UNIFIED_MEMORY'' then systemMemory
        else max systemMemory
               (calculateRequiredVram params modelQuant useKvCache kvCacheQuant contextLength))
   \<and> systemRamNeeded (calculateHardwareRecommendation2 params quantization contextLength
        useKvCache memoryMode systemMemory)
     = (if memoryMode = ''UNIFIED_MEMORY'' then systemMemory
        else max systemMemory
               (calculateRequiredVram2 params quantization contextLength useKvCache))"
  by (simp only: systemRAMRequired_eq systemRamNeeded_eq systemRamNeeded2_eq
        vramRequired_hardware_free) simp

text \<open>
  Against C6 as stated: in App.tsx, a requirement of 14 GB on a discrete GPU gives 128 GB
  of system RAM when 128 GB are declared and 256 GB when 256 GB are declared; neither is
  1.5 times 14.
\<close>

theorem system_ram_needed_counterexample:
  "calculateRequiredVram 7 ''F16'' False ''F16'' 2048 = 14
   \<and> systemRamNeeded (calculateHardwareRecommendation 7 ''F16'' False ''F16'' 2048
        ''DISCRETE_GPU'' 128 24) = 128
   \<and> systemRamNeeded (calculateHardwareRecommendation 7 ''F16'' False ''F16'' 2048
        ''DISCRETE_GPU'' 256 24) = 256
   \<and> systemRamNeeded (calculateHardwareRecommendation 7 ''F16'' False ''F16'' 2048
        ''DISCRETE_GPU'' 128 24) \<noteq> 1.5 * calculateRequiredVram 7 ''F16'' False ''F16'' 2048"
  by (simp add: systemRamNeeded_eq calculateRequiredVram_14)

section \<open>Disk space\<close>



section \<open>Monotonicity of the VRAM estimate\<close>

text \<open>
  C8. For a positive model size, context length and batch size, the VRAM that
  \<^verbatim>\<open>calculateRequirements\<close> stores does not decrease when the model size, the context
  length or the batch size grows (the other inputs fixed), and it does not increase
  when the bytes per parameter of the quantization decrease: it falls along fp32, fp16,
  int8, int4, the order of the bytes per parameter in the table. The table has no 2-bit
  entry: a quantization that is neither listed nor an inherited property name counts 2
  bytes per parameter, so its VRAM is the VRAM of fp16 and lies above the VRAM of int4.
\<close>

theorem vramRequired_monotone:
  assumes "0 < modelSize" "0 < contextLength" "0 < batchSize"
    and "modelSize \<le> modelSize'" "contextLength \<le> contextLength'" "batchSize \<le> batchSize'"
    and "q \<notin> set objectPrototypeProperties" "q' \<notin> set objectPrototypeProperties"
    and "bytesPerParameter q' \<le> bytesPerParameter q"
    and "q2 \<notin> fst ` set bytesPerParameterTable" "q2 \<notin> set objectPrototypeProperties"
  shows
    "js_get_or bytesPerParameterTable q 2 = Some (bytesPerParameter q)
     \<and> js_get_or bytesPerParameterTable q' 2 = Some (bytesPerParameter q')
     \<and> js_get_or bytesPerParameterTable q2 2 = Some 2
     \<and> vramRequired (calculateRequirements modelSize contextLength q enableKVCache batchSize
        gpuModel systemRAM unifiedMemory)
       \<le> vramRequired (calculateRequirements modelSize' contextLength q enableKVCache batchSize
        gpuModel systemRAM unifiedMemory)
     \<and> vramRequired (calculateRequirements modelSize contextLength q enableKVCache batchSize
        gpuModel systemRAM unifiedMemory)
       \<le> vramRequired (calculateRequirements modelSize contextLength' q enableKVCache batchSize
        gpuModel systemRAM unifiedMemory)
     \<and> vramRequired (calculateRequirements modelSize contextLength q enableKVCache batchSize
        gpuModel systemRAM unifiedMemory)
       \<le> vramRequired (calculateRequirements modelSize contextLength q enableKVCache batchSize'
        gpuModel systemRAM unifiedMemory)
     \<and> vramRequired (calculateRequirements modelSize contextLength q' enableKVCache batchSize
        gpuModel systemRAM unifiedMemory)
       \<le> vramRequired (calculateRequirements modelSize contextLength q enableKVCache batchSize
        gpuModel systemRAM unifiedMemory)
     \<and> vramRequired (calculateRequirements modelSize contextLength ''int4'' enableKVCache
        batchSize gpuModel systemRAM unifiedMemory)
       \<le> vramRequired (calculateRequirements modelSize contextLength ''int8'' enableKVCache
        batchSize gpuModel systemRAM unifiedMemory)
     \<and> vramRequired (calculateRequirements modelSize contextLength ''int8'' enableKVCache
        batchSize gpuModel systemRAM unifiedMemory)
       \<le> vramRequired (calculateRequirements modelSize contextLength ''fp16'' enableKVCache
        batchSize gpuModel systemRAM unifiedMemory)
     \<and> vramRequired (calculateRequirements modelSize contextLength ''fp16'' enableKVCache
        batchSize gpuModel systemRAM unifiedMemory)
       \<le> vramRequired (calculateRequirements modelSize contextLength ''fp32'' enableKVCache
        batchSize gpuModel systemRAM unifiedMemory)
     \<and> vramRequired (calculateRequirements modelSize contextLength q2 enableKVCache
        batchSize gpuModel systemRAM unifiedMemory)
       = vramRequired (calculateRequirements modelSize contextLength ''fp16'' enableKVCache
        batchSize gpuModel systemRAM unifiedMemory)
     \<and> vramRequired (calculateRequirements modelSize contextLength ''int4'' enableKVCache
        batchSize gpuModel systemRAM unifiedMemory)
       < vramRequired (calculateRequirements modelSize contextLength q2 enableKVCache
        batchSize gpuModel systemRAM unifiedMemory)"
proof -
  have m: "0 \<le> modelSize" "modelSize \<le> modelSize" using assms(1) by simp_all
  have c: "0 \<le> contextLength" "contextLength \<le> contextLength" using assms(2) by simp_all
  have b: "0 \<le> batchSize" "batchSize \<le> batchSize" using assms(3) by simp_all
  have p: "0 \<le> bytesPerParameter q" "bytesPerParameter q \<le> bytesPerParameter q"
    using bytesPerParameter_pos [of q] by simp_all
  have p': "0 \<le> bytesPerParameter q'" using bytesPerParameter_pos [of q'] by simp
  have l: "js_get_or bytesPerParameterTable q 2 = Some (bytesPerParameter q)"
    "js_get_or bytesPerParameterTable q' 2 = Some (bytesPerParameter q')"
    unfolding bytesPerParameter_def
    by (rule js_get_or_proper [OF assms(7)], rule js_get_or_proper [OF assms(8)])
  have l2: "js_get_or bytesPerParameterTable q2 2 = Some 2"
    by (rule js_get_or_missing [OF assms(10,11)])
  have 1: "calculateVram modelSize contextLength enableKVCache batchSize (bytesPerParameter q)
      \<le> calculateVram modelSize' contextLength enableKVCache batchSize (bytesPerParameter q)"
    using m(1) assms(4) c b p by (rule calculateVram_mono)
  have 2: "calculateVram modelSize contextLength enableKVCache batchSize (bytesPerParameter q)
      \<le> calculateVram modelSize contextLength' enableKVCache batchSize (bytesPerParameter q)"
    using m c(1) assms(5) b p by (rule calculateVram_mono)
  have 3: "calculateVram modelSize contextLength enableKVCache batchSize (bytesPerParameter q)
      \<le> calculateVram modelSize contextLength enableKVCache batchSize' (bytesPerParameter q)"
    using m c b(1) assms(6) p by (rule calculateVram_mono)
  have 4: "calculateVram modelSize contextLength enableKVCache batchSize (bytesPerParameter q')
      \<le> calculateVram modelSize contextLength enableKVCache batchSize (bytesPerParameter q)"
    using m c b p' assms(9) by (rule calculateVram_mono)
  have 5: "calculateVram modelSize contextLength enableKVCache batchSize
        (bytesPerParameter ''int4'')
       \<le> calculateVram modelSize contextLength enableKVCache batchSize
        (bytesPerParameter ''int8'')"
     "calculateVram modelSize contextLength enableKVCache batchSize
        (bytesPerParameter ''int8'')
       \<le> calculateVram modelSize contextLength enableKVCache batchSize
        (bytesPerParameter ''fp16'')"
     "calculateVram modelSize contextLength enableKVCache batchSize
        (bytesPerParameter ''fp16'')
       \<le> calculateVram modelSize contextLength enableKVCache batchSize
        (bytesPerParameter ''fp32'')"
    by (rule calculateVram_mono [OF m c b]; simp add: bytesPerParameter_values)+
  have 6: "calculateVram modelSize contextLength enableKVCache batchSize (bytesPerParameter q2)
      = calculateVram modelSize contextLength enableKVCache batchSize
          (bytesPerParameter ''fp16'')"
    by (simp only: bytesPerParameter_unknown [OF assms(10)] bytesPerParameter_values)
  have 7: "calculateVram modelSize contextLength enableKVCache batchSize
        (bytesPerParameter ''int4'')
      < calculateVram modelSize contextLength enableKVCache batchSize (bytesPerParameter q2)"
    using assms(1)
    by (simp add: bytesPerParameter_unknown [OF assms(10)] bytesPerParameter_values
          calculateVram_def Let_def divide_strict_right_mono)
  show ?thesis
    unfolding vramRequired_hardware_free
    using l l2 1 2 3 4 5 6 7 by (intro conjI)
qed

text \<open>From 7 to 13 billion parameters, from 4096 to 8192 tokens, from batch size 1 to 2,
  and from int4 to fp16, with the KV cache enabled; the key \<^verbatim>\<open>int2\<close> is not listed.\<close>

theorem vramRequired_monotone_witness:
  "(0::real) < 7 \<and> (0::real) < 4096 \<and> (0::real) < 1
   \<and> (7::real) \<le> 13 \<and> (4096::real) \<le> 8192 \<and> (1::real) \<le> 2
   \<and> ''fp16'' \<notin> set objectPrototypeProperties \<and> ''int4'' \<notin> set objectPrototypeProperties
   \<and> bytesPerParameter ''int4'' \<le> bytesPerParameter ''fp16''
   \<and> ''int2'' \<notin> fst ` set bytesPerParameterTable
   \<and> ''int2'' \<notin> set objectPrototypeProperties
   \<and> vramRequired (calculateRequirements 7 4096 ''fp16'' True 1 ''rtx4090'' 32 False)
       \<le> vramRequired (calculateRequirements 13 4096 ''fp16'' True 1 ''rtx4090'' 32 False)
   \<and> vramRequired (calculateRequirements 7 4096 ''fp16'' True 1 ''rtx4090'' 32 False)
       \<le> vramRequired (calculateRequirements 7 8192 ''fp16'' True 1 ''rtx4090'' 32 False)
   \<and> vramRequired (calculateRequirements 7 4096 ''fp16'' True 1 ''rtx4090'' 32 False)
       \<le> vramRequired (calculateRequirements 7 4096 ''fp16'' True 2 ''rtx4090'' 32 False)
   \<and> vramRequired (calculateRequirements 7 4096 ''int4'' True 1 ''rtx4090'' 32 False)
       \<le> vramRequired (calculateRequirements 7 4096 ''fp16'' True 1 ''rtx4090'' 32 False)
   \<and> vramRequired (calculateRequirements 7 4096 ''int2'' True 1 ''rtx4090'' 32 False)
       = vramRequired (calculateRequirements 7 4096 ''fp16'' True 1 ''rtx4090'' 32 False)
   \<and> vramRequired (calculateRequirements 7 4096 ''int4'' True 1 ''rtx4090'' 32 False)
       < vramRequired (calculateRequirements 7 4096 ''int2'' True 1 ''rtx4090'' 32 False)"
proof -
  have h: "(0::real) < 7" "(0::real) < 4096" "(0::real) < 1"
    "(7::real) \<le> 13" "(4096::real) \<le> 8192" "(1::real) \<le> 2"
    "''fp16'' \<notin> set objectPrototypeProperties" "''int4'' \<notin> set objectPrototypeProperties"
    "bytesPerParameter ''int4'' \<le> bytesPerParameter ''fp16''"
    "''int2'' \<notin> fst ` set bytesPerParameterTable"
    "''int2'' \<notin> set objectPrototypeProperties"
    by (simp_all add: bytesPerParameter_values bytesPerParameterTable_def
          objectPrototypeProperties_def)
  note t = vramRequired_monotone [OF h, of True "''rtx4090''" 32 False]
  from t h show ?thesis by (elim conjE) (intro conjI)
qed

text \<open>
  Against C8 as stated: with the KV cache disabled, 7 billion parameters take
  \<open>3.5 \<times> 10\<^sup>9 / 2\<^sup>3\<^sup>0\<close> GB at 4 bits (\<^verbatim>\<open>int4\<close>) and \<open>14 \<times> 10\<^sup>9 / 2\<^sup>3\<^sup>0\<close> GB for a 2-bit
  key (\<^verbatim>\<open>int2\<close>, or \<^verbatim>\<open>Q2\<close> as App.tsx names it): the estimate grows from 4 bits to
  2 bits.
\<close>

theorem vramRequired_2bit_order_counterexample:
  "vramRequired (calculateRequirements 7 4096 ''int4'' False 1 ''rtx4090'' 32 False)
     = 3500000000 / 2 ^ 30
   \<and> vramRequired (calculateRequirements 7 4096 ''int2'' False 1 ''rtx4090'' 32 False)
     = 14000000000 / 2 ^ 30
   \<and> vramRequired (calculateRequirements 7 4096 ''int4'' False 1 ''rtx4090'' 32 False)
     < vramRequired (calculateRequirements 7 4096 ''int2'' False 1 ''rtx4090'' 32 False)
   \<and> vramRequired (calculateRequirements 7 4096 ''int4'' False 1 ''rtx4090'' 32 False)
     < vramRequired (calculateRequirements 7 4096 ''Q2'' False 1 ''rtx4090'' 32 False)"
  by (simp add: vramRequired_eq bytesPerParameter_def bytesPerParameterTable_def js_or_def)

section \<open>Keys outside the tables\<close>

text \<open>
  C9. For a quantization and a GPU model that are neither listed in the tables nor
  inherited property names, every lookup is \<^verbatim>\<open>undefined\<close> and falls back to its
  default, and nothing throws. In \<^verbatim>\<open>calculateRequirements\<close> the quantization counts 2
  bytes per parameter (the width of fp16) and has the speed factor 1.0, the GPU model
  has the capacity 24 GB and the speed factor 1.0, and the VRAM, the GPU count and the
  inference speed are computed from these defaults. The list of performance factors of
  the speed estimator returns the two texts "1.0" and raises no exception. The
  \<^verbatim>\<open>switch\<close> statements of App.tsx return the factor 1.0 for every quantization they
  do not list. \<^verbatim>\<open>calculateRequirements\<close> itself consists of arithmetic, property reads,
  \<^verbatim>\<open>Math.ceil\<close> and state setters, none of which throws on any input.
\<close>

theorem unknown_keys_use_defaults:
  assumes "q \<notin> fst ` set bytesPerParameterTable" "q \<notin> fst ` set quantizationSpeedFactors"
    and "g \<notin> fst ` set gpuVramSizes" "g \<notin> fst ` set gpuSpeedFactors"
    and "q \<notin> set objectPrototypeProperties" "g \<notin> set objectPrototypeProperties"
  shows
    "js_get_or bytesPerParameterTable q 2 = Some 2
     \<and> js_get_or quantizationSpeedFactors q 1.0 = Some 1
     \<and> js_get_or gpuVramSizes g 24 = Some 24
     \<and> js_get_or gpuSpeedFactors g 1.0 = Some 1
     \<and> bytesPerParameter q = 2 \<and> quantizationSpeedFactor q = 1
     \<and> selectedGpuVram g = 24 \<and> speedFactor g = 1
     \<and> vramRequired (calculateRequirements modelSize contextLength q enableKVCache batchSize
          g systemRAM unifiedMemory)
        = calculateVram modelSize contextLength enableKVCache batchSize 2
     \<and> gpusNeeded (calculateRequirements modelSize contextLength q enableKVCache batchSize
          g systemRAM False)
        = Some \<lceil>calculateVram modelSize contextLength enableKVCache batchSize 2 / 24\<rceil>
     \<and> inferenceSpeed (calculateRequirements modelSize contextLength q enableKVCache batchSize
          g systemRAM False)
        = (if modelSize = 0 then None
           else Some (30 * 1.0 * 1.0 * (7 / modelSize)
                  * of_int \<lceil>calculateVram modelSize contextLength enableKVCache batchSize 2
                      / 24\<rceil>))
     \<and> performanceFactors g q = Inr (1.0, 1.0)
     \<and> (modelQuant \<in> set [''F32'', ''F16'', ''Q8'', ''Q6'', ''Q5'', ''Q4'', ''Q3'', ''Q2'',
            ''GPTQ'', ''AWQ'']
          \<or> getModelQuantFactor modelQuant = 1)
     \<and> (kvCacheQuant \<in> set [''F32'', ''F16'', ''Q8'', ''Q5'', ''Q4'']
          \<or> getKvCacheQuantFactor kvCacheQuant = 1)
     \<and> (quantization \<in> set [''FP32'', ''FP16'', ''INT8'', ''INT6'', ''INT4'', ''INT3'',
            ''INT2'', ''GPTQ'', ''AWQ'']
          \<or> getQuantizationFactor quantization = 1)"
proof -
  note b = bytesPerParameter_unknown [OF assms(1)]
  note qs = quantizationSpeedFactor_unknown [OF assms(2)]
  note s = selectedGpuVram_unknown [OF assms(3)]
  note gs = speedFactor_unknown [OF assms(4)]
  have l: "js_get_or bytesPerParameterTable q 2 = Some 2"
    "js_get_or quantizationSpeedFactors q 1.0 = Some 1"
    "js_get_or gpuVramSizes g 24 = Some 24"
    "js_get_or gpuSpeedFactors g 1.0 = Some 1"
    using js_get_or_missing [OF assms(1,5)] js_get_or_missing [OF assms(2,5)]
      js_get_or_missing [OF assms(3,6)] js_get_or_missing [OF assms(4,6)]
    by simp_all
  have 1: "vramRequired (calculateRequirements modelSize contextLength q enableKVCache batchSize
          g systemRAM unifiedMemory)
        = calculateVram modelSize contextLength enableKVCache batchSize 2"
    by (simp only: vramRequired_hardware_free b)
  have 2: "gpusNeeded (calculateRequirements modelSize contextLength q enableKVCache batchSize
          g systemRAM False)
        = Some \<lceil>calculateVram modelSize contextLength enableKVCache batchSize 2 / 24\<rceil>"
    by (simp only: gpusNeeded_discrete s vramRequired_hardware_free b)
  have 3: "inferenceSpeed (calculateRequirements modelSize contextLength q enableKVCache
          batchSize g systemRAM False)
        = (if modelSize = 0 then None
           else Some (30 * 1.0 * 1.0 * (7 / modelSize)
                  * of_int \<lceil>calculateVram modelSize contextLength enableKVCache batchSize 2
                      / 24\<rceil>))"
    by (simp only: inferenceSpeed_eq 2 gs qs js_div_def) simp
  have 4: "performanceFactors g q = Inr (1.0, 1.0)"
    by (simp add: performanceFactors_def factorText_missing [OF assms(4,6)]
          factorText_missing [OF assms(2,5)])
  have 5: "modelQuant \<in> set [''F32'', ''F16'', ''Q8'', ''Q6'', ''Q5'', ''Q4'', ''Q3'', ''Q2'',
            ''GPTQ'', ''AWQ''] \<or> getModelQuantFactor modelQuant = 1"
    by (simp add: getModelQuantFactor_def)
  have 6: "kvCacheQuant \<in> set [''F32'', ''F16'', ''Q8'', ''Q5'', ''Q4'']
          \<or> getKvCacheQuantFactor kvCacheQuant = 1"
    by (simp add: getKvCacheQuantFactor_def)
  have 7: "quantization \<in> set [''FP32'', ''FP16'', ''INT8'', ''INT6'', ''INT4'', ''INT3'',
            ''INT2'', ''GPTQ'', ''AWQ''] \<or> getQuantizationFactor quantization = 1"
    by (simp add: getQuantizationFactor_def)
  show ?thesis
    using l b qs s gs 1 2 3 4 5 6 7 by (intro conjI)
qed

text \<open>The quantization \<^verbatim>\<open>fp8\<close> and the GPU model \<^verbatim>\<open>rtx5090\<close> are in no table and
  are no inherited names.\<close>

theorem unknown_keys_use_defaults_witness:
  "''fp8'' \<notin> fst ` set bytesPerParameterTable
   \<and> ''fp8'' \<notin> fst ` set quantizationSpeedFactors
   \<and> ''rtx5090'' \<notin> fst ` set gpuVramSizes
   \<and> ''rtx5090'' \<notin> fst ` set gpuSpeedFactors
   \<and> ''fp8'' \<notin> set objectPrototypeProperties
   \<and> ''rtx5090'' \<notin> set objectPrototypeProperties
   \<and> js_get_or bytesPerParameterTable ''fp8'' 2 = Some 2
   \<and> js_get_or quantizationSpeedFactors ''fp8'' 1.0 = Some 1
   \<and> js_get_or gpuVramSizes ''rtx5090'' 24 = Some 24
   \<and> js_get_or gpuSpeedFactors ''rtx5090'' 1.0 = Some 1
   \<and> performanceFactors ''rtx5090'' ''fp8'' = Inr (1.0, 1.0)
   \<and> getModelQuantFactor ''fp8'' = 1"
proof -
  have h: "''fp8'' \<notin> fst ` set bytesPerParameterTable"
    "''fp8'' \<notin> fst ` set quantizationSpeedFactors"
    "''rtx5090'' \<notin> fst ` set gpuVramSizes"
    "''rtx5090'' \<notin> fst ` set gpuSpeedFactors"
    "''fp8'' \<notin> set objectPrototypeProperties"
    "''rtx5090'' \<notin> set objectPrototypeProperties"
    by (simp_all add: bytesPerParameterTable_def quantizationSpeedFactors_def gpuVramSizes_def
          gpuSpeedFactors_def objectPrototypeProperties_def)
  note t = unknown_keys_use_defaults [OF h, where modelQuant = "''fp8''"
      and kvCacheQuant = "''fp8''" and quantization = "''fp8''" and modelSize = 7
      and contextLength = 4096 and enableKVCache = True and batchSize = 1
      and systemRAM = 32 and unifiedMemory = False]
  from t have m: "getModelQuantFactor ''fp8'' = 1" by simp
  from t h m show ?thesis by (elim conjE) (intro conjI)
qed

text \<open>
  Against C9 as stated: for a quantization outside its table, calculator.tsx counts 2
  bytes per parameter, not 1.0; and for the inherited name \<^verbatim>\<open>constructor\<close> the
  lookup is no number and the list of performance factors raises a \<^verbatim>\<open>TypeError\<close>.
\<close>

theorem bytesPerParameter_default_counterexample:
  "''fp8'' \<notin> fst ` set bytesPerParameterTable
   \<and> js_get_or bytesPerParameterTable ''fp8'' 2 = Some 2
   \<and> js_get_or bytesPerParameterTable ''fp8'' 2 \<noteq> Some 1.0
   \<and> bytesPerParameter ''fp8'' \<noteq> 1.0
   \<and> ''constructor'' \<notin> fst ` set quantizationSpeedFactors
   \<and> js_get_or bytesPerParameterTable ''constructor'' 2 = None
   \<and> performanceFactors ''rtx4090'' ''constructor'' = Inl TypeError"
  by (simp add: bytesPerParameter_def bytesPerParameterTable_def js_or_def js_get_or_def
        js_get_def objectPrototypeProperties_def performanceFactors_def factorText_def
        gpuSpeedFactors_def quantizationSpeedFactors_def)

section \<open>The three VRAM estimators side by side\<close>

text \<open>
  C10. The three VRAM estimators are not extensionally equal. For 65 billion parameters
  at 0.5 bytes per parameter (\<^verbatim>\<open>int4\<close>, \<^verbatim>\<open>Q4\<close>, \<^verbatim>\<open>INT4\<close>), context length
  4096, the KV cache enabled (kept in F16 where it can be chosen) and batch size 1, the
  head-count estimate of calculator.tsx is \<open>90278634752 / 2\<^sup>3\<^sup>0\<close> GB, the estimate of
  App.tsx with the KV fraction 0.2 is 117 GB and the estimate of App.tsx with the
  multiplier 1.2 is 78 GB: three different values.
\<close>

theorem vram_estimators_differ:
  "bytesPerParameter ''int4'' = 0.5 \<and> getModelQuantFactor ''Q4'' = 0.5
   \<and> getQuantizationFactor ''INT4'' = 0.5
   \<and> vramRequired (calculateRequirements 65 4096 ''int4'' True 1 gpuModel systemRAM
        unifiedMemory) = 90278634752 / 2 ^ 30
   \<and> calculateRequiredVram 65 ''Q4'' True ''F16'' 4096 = 117
   \<and> calculateRequiredVram2 65 ''INT4'' 4096 True = 78
   \<and> vramRequired (calculateRequirements 65 4096 ''int4'' True 1 gpuModel systemRAM
        unifiedMemory) \<noteq> calculateRequiredVram 65 ''Q4'' True ''F16'' 4096
   \<and> vramRequired (calculateRequirements 65 4096 ''int4'' True 1 gpuModel systemRAM
        unifiedMemory) \<noteq> calculateRequiredVram2 65 ''INT4'' 4096 True
   \<and> calculateRequiredVram 65 ''Q4'' True ''F16'' 4096
       \<noteq> calculateRequiredVram2 65 ''INT4'' 4096 True"
proof -
  have a: "vramRequired (calculateRequirements 65 4096 ''int4'' True 1 gpuModel systemRAM
        unifiedMemory) = 90278634752 / 2 ^ 30"
    by (simp add: vramRequired_eq bytesPerParameter_values numHeads_65)
  have b: "calculateRequiredVram 65 ''Q4'' True ''F16'' 4096 = 117"
    by (simp add: calculateRequiredVram_def getModelQuantFactor_def getKvCacheQuantFactor_def
          Let_def)
  have c: "calculateRequiredVram2 65 ''INT4'' 4096 True = 78"
    by (simp add: calculateRequiredVram2_def getQuantizationFactor_def Let_def)
  show ?thesis
    unfolding a b c
    by (simp add: bytesPerParameter_values getModelQuantFactor_def getQuantizationFactor_def)
qed

end
